theory Spec2Isabelle
  imports Main
begin

section \<open>The article repository of notelify-articles-svc over its document store\<close>

text \<open>
  The Go package \<^verbatim>\<open>internal/adapters/repository/dynamodb\<close> implements the article
  repository on top of a managed key-value store. Each repository method is embedded
  as a function that takes the state of the world (the table, the requests sent so
  far, the Go heap of articles) and returns its Go result together with the new state.
\<close>

subsection \<open>Domain records\<close>

text \<open>
  Modelled from the spec: the type \<^verbatim>\<open>domain.Article\<close> is declared in
  \<^verbatim>\<open>internal/core/domain\<close>, which is not among the sources. The fields are those of
  section 3 of the specification (identity, four text blocks, tags, publish date, an
  embedded author reference with its id and display name); the source reads
  \<^verbatim>\<open>article.ArticleID\<close> and \<^verbatim>\<open>article.Author.ID\<close>. The publish date is kept as
  the text the store holds for it.
\<close>

record AuthorInfo =
  ID :: string
  Name :: string

record Article =
  ArticleID :: string
  Title :: string
  Subtitle :: string
  Introduction :: string
  Body :: string
  Tags :: "string list"
  PublishDate :: string
  Author :: AuthorInfo

text \<open>The Go zero values \<^verbatim>\<open>domain.AuthorInfo{}\<close> and \<^verbatim>\<open>domain.Article{}\<close>.\<close>

definition zero_AuthorInfo :: AuthorInfo where
  "zero_AuthorInfo = \<lparr>ID = [], Name = []\<rparr>"

definition zero_Article :: Article where
  "zero_Article =
     \<lparr>ArticleID = [], Title = [], Subtitle = [], Introduction = [], Body = [],
      Tags = [], PublishDate = [], Author = zero_AuthorInfo\<rparr>"

subsection \<open>Go errors and abnormal ends of a call\<close>

text \<open>
  A Go \<^verbatim>\<open>error\<close> value is one of: the error a store client call returned, the
  type error of the attribute decoder, the error of the expression builder on an
  empty name, or a plain \<^verbatim>\<open>errors.New(msg)\<close>. \<open>Error\<close> is its message; for the
  two library errors a fixed text stands for the library's wording.
\<close>

datatype error =
    RequestFailure string
  | UnmarshalTypeError
  | UnsetParameterError
  | ErrorString string

fun Error :: "error \<Rightarrow> string" where
  "Error (RequestFailure m) = m"
| "Error UnmarshalTypeError = ''dynamodbattribute: cannot unmarshal attribute''"
| "Error UnsetParameterError = ''unset parameter: NameBuilder''"
| "Error (ErrorString m) = m"

text \<open>
  A method either returns its Go result, or ends the process through
  \<^verbatim>\<open>log.Fatalf\<close> (which prints the message and exits with status 1), or panics on a
  nil pointer dereference.
\<close>

datatype 'a outcome = Returned 'a | Fatal string | NilDereference

subsection \<open>Store items\<close>

text \<open>
  An attribute value of the store: a string, a list, a map, the null value or a
  boolean. An item is a Go \<^verbatim>\<open>map[string]*dynamodb.AttributeValue\<close>, kept as an
  association list.
\<close>

datatype attr = S string | L "attr list" | M "(string \<times> attr) list" | NULL | BOOL bool

type_synonym item = "(string \<times> attr) list"

text \<open>
  Modelled from the spec: the encoding of \<^verbatim>\<open>domain.Article\<close> as an item depends on
  the field tags of the missing declaration. Attributes correspond one to one to the
  fields (section 6 of the specification), under the names \<^verbatim>\<open>GetArticles\<close>
  projects and \<^verbatim>\<open>GetArticleByID\<close> uses as key. The encoder writes an empty string as
  the null value and a nil pointer as the empty map; it has no failing case on this
  type, and the decoder reads a missing or null attribute as the zero value and
  rejects an attribute of another type.
\<close>

definition encode_string :: "string \<Rightarrow> attr" where
  "encode_string s = (if s = [] then NULL else S s)"

definition encode_AuthorInfo :: "AuthorInfo \<Rightarrow> attr" where
  "encode_AuthorInfo au =
     M [(''author_id'', encode_string (ID au)), (''name'', encode_string (Name au))]"

fun MarshalMap :: "Article option \<Rightarrow> error + item" where
  "MarshalMap None = Inr []"
| "MarshalMap (Some a) = Inr
     [(''article_id'', encode_string (ArticleID a)),
      (''title'', encode_string (Title a)),
      (''subtitle'', encode_string (Subtitle a)),
      (''introduction'', encode_string (Introduction a)),
      (''body'', encode_string (Body a)),
      (''tags'', L (map encode_string (Tags a))),
      (''publish_date'', encode_string (PublishDate a)),
      (''author_info'', encode_AuthorInfo (Author a))]"

text \<open>The item of an article: what \<^verbatim>\<open>MarshalMap\<close> returns on a pointer to it.\<close>

definition encoded :: "Article \<Rightarrow> item" where
  "encoded a = (case MarshalMap (Some a) of Inr m \<Rightarrow> m | Inl err \<Rightarrow> [])"

fun decode_string :: "attr option \<Rightarrow> error + string" where
  "decode_string None = Inr []"
| "decode_string (Some NULL) = Inr []"
| "decode_string (Some (S s)) = Inr s"
| "decode_string (Some v) = Inl UnmarshalTypeError"

fun decode_elements :: "attr list \<Rightarrow> error + string list" where
  "decode_elements [] = Inr []"
| "decode_elements (v # vs) =
     (case decode_string (Some v) of
        Inl err \<Rightarrow> Inl err
      | Inr s \<Rightarrow> (case decode_elements vs of Inl err \<Rightarrow> Inl err | Inr ss \<Rightarrow> Inr (s # ss)))"

fun decode_strings :: "attr option \<Rightarrow> error + string list" where
  "decode_strings None = Inr []"
| "decode_strings (Some NULL) = Inr []"
| "decode_strings (Some (L vs)) = decode_elements vs"
| "decode_strings (Some v) = Inl UnmarshalTypeError"

fun decode_AuthorInfo :: "attr option \<Rightarrow> error + AuthorInfo" where
  "decode_AuthorInfo None = Inr zero_AuthorInfo"
| "decode_AuthorInfo (Some NULL) = Inr zero_AuthorInfo"
| "decode_AuthorInfo (Some (M m)) =
     (case decode_string (map_of m ''author_id'') of
        Inl err \<Rightarrow> Inl err
      | Inr i \<Rightarrow>
          (case decode_string (map_of m ''name'') of
             Inl err \<Rightarrow> Inl err
           | Inr n \<Rightarrow> Inr \<lparr>ID = i, Name = n\<rparr>))"
| "decode_AuthorInfo (Some v) = Inl UnmarshalTypeError"

definition and_then :: "error + 'a \<Rightarrow> ('a \<Rightarrow> error + 'b) \<Rightarrow> error + 'b" where
  "and_then r f = (case r of Inl err \<Rightarrow> Inl err | Inr x \<Rightarrow> f x)"

definition UnmarshalMap :: "item \<Rightarrow> error + Article" where
  "UnmarshalMap m =
     and_then (decode_string (map_of m ''article_id'')) (\<lambda>i.
     and_then (decode_string (map_of m ''title'')) (\<lambda>t.
     and_then (decode_string (map_of m ''subtitle'')) (\<lambda>st.
     and_then (decode_string (map_of m ''introduction'')) (\<lambda>intro.
     and_then (decode_string (map_of m ''body'')) (\<lambda>b.
     and_then (decode_strings (map_of m ''tags'')) (\<lambda>ts.
     and_then (decode_string (map_of m ''publish_date'')) (\<lambda>d.
     and_then (decode_AuthorInfo (map_of m ''author_info'')) (\<lambda>au.
       Inr \<lparr>ArticleID = i, Title = t, Subtitle = st, Introduction = intro, Body = b,
            Tags = ts, PublishDate = d, Author = au\<rparr>))))))))"

subsection \<open>The world: the table, the requests sent, the heap\<close>

text \<open>
  The store client of the source is the AWS SDK. Its calls are requests to one
  table keyed by the string attribute \<^verbatim>\<open>article_id\<close> (section 6 of the
  specification). The world holds the items of that table in the order a scan
  visits them, the secondary indexes provisioned on it (name and partition key
  attribute), the number of items the store evaluates for one scan or query request
  before it stops and hands out a continuation key, every request sent so far, and
  for every request number whether the transport or the backend fails it. A failed
  request has no effect on the table. The heap holds the Go values of type
  \<^verbatim>\<open>domain.Article\<close> that pointers refer to; an address is an index into it
  and \<open>None\<close> is the nil pointer.
\<close>

datatype condition =
    AttributeNotExists string
  | Equal string attr
  | Contains string attr

datatype request =
    PutItemReq string item
  | GetItemReq string item
  | DeleteItemReq string item
  | ScanReq string "condition option" "string list option"
  | QueryReq string string condition "condition option"

record world =
  table_name :: string
  rows :: "item list"
  indexes :: "(string \<times> string) list"
  page_limit :: nat
  faults :: "nat \<Rightarrow> error option"
  requests :: "request list"
  heap :: "Article list"

definition table_key :: string where
  "table_key = ''article_id''"

definition key_of :: "item \<Rightarrow> string option" where
  "key_of it =
     (case map_of it table_key of
        Some (S k) \<Rightarrow> if k = [] then None else Some k
      | _ \<Rightarrow> None)"

definition next_fault :: "world \<Rightarrow> error option" where
  "next_fault w = faults w (length (requests w))"

definition send :: "request \<Rightarrow> string \<Rightarrow> world \<Rightarrow> error option \<times> world" where
  "send r tn w =
     (let w' = w\<lparr>requests := requests w @ [r]\<rparr> in
      case next_fault w of
        Some err \<Rightarrow> (Some err, w')
      | None \<Rightarrow>
          if tn \<noteq> table_name w then (Some (RequestFailure ''ResourceNotFoundException''), w')
          else (None, w'))"

definition alloc :: "Article \<Rightarrow> world \<Rightarrow> nat \<times> world" where
  "alloc a w = (length (heap w), w\<lparr>heap := heap w @ [a]\<rparr>)"

definition load :: "world \<Rightarrow> nat \<Rightarrow> Article option" where
  "load w p = (if p < length (heap w) then Some (heap w ! p) else None)"

fun deref :: "world \<Rightarrow> nat option \<Rightarrow> Article option" where
  "deref w None = None"
| "deref w (Some p) = load w p"

subsection \<open>The store client calls\<close>

text \<open>
  \<^verbatim>\<open>PutItem\<close> needs a non-empty string under the key attribute and replaces the
  item stored under that key; \<^verbatim>\<open>GetItem\<close> answers with the item under the key or
  with no item; \<^verbatim>\<open>DeleteItem\<close> removes the item under the key and succeeds as well
  when there is none. Each call reports the failure of its request, if any, and
  otherwise rejects a request to another table or with a malformed key.
\<close>

definition PutItem :: "string \<Rightarrow> item \<Rightarrow> world \<Rightarrow> error option \<times> world" where
  "PutItem tn it w =
     (case send (PutItemReq tn it) tn w of
        (Some err, w') \<Rightarrow> (Some err, w')
      | (None, w') \<Rightarrow>
          (case key_of it of
             None \<Rightarrow> (Some (RequestFailure ''ValidationException''), w')
           | Some k \<Rightarrow> (None, w'\<lparr>rows := [r \<leftarrow> rows w'. key_of r \<noteq> Some k] @ [it]\<rparr>)))"

definition request_key :: "item \<Rightarrow> string option" where
  "request_key key = (if length key = 1 then key_of key else None)"

definition GetItem :: "string \<Rightarrow> item \<Rightarrow> world \<Rightarrow> (item option \<times> error option) \<times> world" where
  "GetItem tn key w =
     (case send (GetItemReq tn key) tn w of
        (Some err, w') \<Rightarrow> ((None, Some err), w')
      | (None, w') \<Rightarrow>
          (case request_key key of
             None \<Rightarrow> ((None, Some (RequestFailure ''ValidationException'')), w')
           | Some k \<Rightarrow> ((find (\<lambda>r. key_of r = Some k) (rows w'), None), w')))"

definition DeleteItem :: "string \<Rightarrow> item \<Rightarrow> world \<Rightarrow> (unit option \<times> error option) \<times> world" where
  "DeleteItem tn key w =
     (case send (DeleteItemReq tn key) tn w of
        (Some err, w') \<Rightarrow> ((Some (), Some err), w')
      | (None, w') \<Rightarrow>
          (case request_key key of
             None \<Rightarrow> ((Some (), Some (RequestFailure ''ValidationException'')), w')
           | Some k \<Rightarrow> ((Some (), None), w'\<lparr>rows := [r \<leftarrow> rows w'. key_of r \<noteq> Some k]\<rparr>)))"

fun has_substring :: "string \<Rightarrow> string \<Rightarrow> bool" where
  "has_substring t [] = (t = [])"
| "has_substring t (c # cs) = (take (length t) (c # cs) = t \<or> has_substring t cs)"

fun holds :: "condition \<Rightarrow> item \<Rightarrow> bool" where
  "holds (AttributeNotExists n) it = (map_of it n = None)"
| "holds (Equal n v) it = (map_of it n = Some v)"
| "holds (Contains n v) it =
     (case map_of it n of
        Some (S s) \<Rightarrow> (case v of S t \<Rightarrow> has_substring t s | _ \<Rightarrow> False)
      | Some (L vs) \<Rightarrow> v \<in> set vs
      | _ \<Rightarrow> False)"

definition select :: "condition option \<Rightarrow> item list \<Rightarrow> item list" where
  "select c its = (case c of None \<Rightarrow> its | Some f \<Rightarrow> [it \<leftarrow> its. holds f it])"

definition project :: "string list option \<Rightarrow> item \<Rightarrow> item" where
  "project p it = (case p of None \<Rightarrow> it | Some ns \<Rightarrow> [(n, v) \<leftarrow> it. n \<in> set ns])"

record Output =
  Items :: "item list"
  LastEvaluatedKey :: "item option"

definition no_output :: Output where
  "no_output = \<lparr>Items = [], LastEvaluatedKey = None\<rparr>"

definition last_key :: "item list \<Rightarrow> item option" where
  "last_key its =
     (case its of
        [] \<Rightarrow> None
      | _ \<Rightarrow> Some [(table_key, case map_of (last its) table_key of Some v \<Rightarrow> v | None \<Rightarrow> NULL)])"

text \<open>
  One page of a scan or a query: the store evaluates the first \<open>page_limit\<close>
  candidates, applies the filter to them afterwards, and reports a continuation key
  when candidates remain.
\<close>

definition page :: "nat \<Rightarrow> condition option \<Rightarrow> string list option \<Rightarrow> item list \<Rightarrow> Output" where
  "page n filt proj cands =
     \<lparr>Items = map (project proj) (select filt (take n cands)),
      LastEvaluatedKey = (if length cands \<le> n then None else last_key (take n cands))\<rparr>"

definition Scan ::
  "string \<Rightarrow> condition option \<Rightarrow> string list option \<Rightarrow> world \<Rightarrow> (Output \<times> error option) \<times> world"
where
  "Scan tn filt proj w =
     (case send (ScanReq tn filt proj) tn w of
        (Some err, w') \<Rightarrow> ((no_output, Some err), w')
      | (None, w') \<Rightarrow> ((page (page_limit w') filt proj (rows w'), None), w'))"

definition indexed :: "string \<Rightarrow> item \<Rightarrow> bool" where
  "indexed pk it = (case map_of it pk of Some (S k) \<Rightarrow> k \<noteq> [] | _ \<Rightarrow> False)"

definition Query ::
  "string \<Rightarrow> string \<Rightarrow> condition \<Rightarrow> condition option \<Rightarrow> world \<Rightarrow> (Output \<times> error option) \<times> world"
where
  "Query tn ix keycond filt w =
     (case send (QueryReq tn ix keycond filt) tn w of
        (Some err, w') \<Rightarrow> ((no_output, Some err), w')
      | (None, w') \<Rightarrow>
          (case (map_of (indexes w') ix, keycond) of
             (Some pk, Equal n v) \<Rightarrow>
               if n = pk then
                 ((page (page_limit w') filt None
                     [it \<leftarrow> rows w'. indexed pk it \<and> holds keycond it], None), w')
               else ((no_output, Some (RequestFailure ''ValidationException'')), w')
           | _ \<Rightarrow> ((no_output, Some (RequestFailure ''ValidationException'')), w')))"

text \<open>
  The expression builder of the SDK: building fails on an empty attribute name.
\<close>

fun condition_names :: "condition \<Rightarrow> string list" where
  "condition_names (AttributeNotExists n) = [n]"
| "condition_names (Equal n v) = [n]"
| "condition_names (Contains n v) = [n]"

definition Build :: "condition \<Rightarrow> string list \<Rightarrow> error + (condition \<times> string list)" where
  "Build filt proj =
     (if [] \<in> set (condition_names filt @ proj) \<or> proj = [] then Inl UnsetParameterError
      else Inr (filt, proj))"

subsection \<open>The repository methods\<close>

text \<open>
  The receiver \<^verbatim>\<open>dynamodbClient\<close>: its client is the world, its table name a
  field. A pointer to an article is an address on the heap, or nil; a Go result
  \<^verbatim>\<open>(*domain.Article, error)\<close> is a pair of an optional address and an optional
  error, and \<^verbatim>\<open>*[]domain.Article\<close> is an optional list.
\<close>

record dynamodbClient =
  tablename :: string

text \<open>\<^verbatim>\<open>CreateArticle\<close>, lines 37 to 54 of \<^verbatim>\<open>dynamodb.go\<close>.\<close>

definition CreateArticle ::
  "dynamodbClient \<Rightarrow> nat option \<Rightarrow> world \<Rightarrow> (nat option \<times> error option) \<times> world"
where
  "CreateArticle db article w =
     (case MarshalMap (deref w article) of
        Inl err \<Rightarrow> ((None, Some err), w)
      | Inr entityParsed \<Rightarrow>
          (case PutItem (tablename db) entityParsed w of
             (Some err, w') \<Rightarrow> ((None, Some err), w')
           | (None, w') \<Rightarrow> ((article, None), w')))"

text \<open>
  \<^verbatim>\<open>GetArticleByID\<close>, lines 56 to 79. Each of its four returns takes the address
  of a new article: \<^verbatim>\<open>&domain.Article{}\<close> on the three error paths, the decoded
  \<^verbatim>\<open>&article\<close> on success.
\<close>

definition new_Article ::
  "Article \<Rightarrow> error option \<Rightarrow> world \<Rightarrow> (nat option \<times> error option) \<times> world"
where
  "new_Article a err w = (case alloc a w of (p, w') \<Rightarrow> ((Some p, err), w'))"

definition not_found_msg :: "string \<Rightarrow> string" where
  "not_found_msg article_id = ''Article with id [ '' @ article_id @ '' ] not found''"

definition GetArticleByID ::
  "dynamodbClient \<Rightarrow> string \<Rightarrow> world \<Rightarrow> (nat option \<times> error option) \<times> world"
where
  "GetArticleByID db article_id w =
     (case GetItem (tablename db) [(''article_id'', S article_id)] w of
        ((result, Some err), w') \<Rightarrow> new_Article zero_Article (Some err) w'
      | ((None, None), w') \<Rightarrow>
          new_Article zero_Article (Some (ErrorString (not_found_msg article_id))) w'
      | ((Some it, None), w') \<Rightarrow>
          (case UnmarshalMap it of
             Inl err \<Rightarrow> new_Article zero_Article (Some err) w'
           | Inr article \<Rightarrow> new_Article article None w'))"

text \<open>
  \<^verbatim>\<open>GetArticles\<close>, lines 135 to 177: the filter and the projection handed to the
  expression builder, the single scan, and the loop that decodes the items of the
  response, which stops at the first item that does not decode. The same loop body
  is in \<^verbatim>\<open>GetArticlesByTag\<close>, which ends the process where this one returns.
\<close>

fun decode_items :: "item list \<Rightarrow> Article list \<Rightarrow> error + Article list" where
  "decode_items [] articles = Inr articles"
| "decode_items (it # its) articles =
     (case UnmarshalMap it of
        Inl err \<Rightarrow> Inl err
      | Inr article \<Rightarrow> decode_items its (articles @ [article]))"

definition scan_filter :: condition where
  "scan_filter = AttributeNotExists ''ArticleID''"

definition scan_projection :: "string list" where
  "scan_projection =
     [''article_id'', ''title'', ''subtitle'', ''introduction'', ''body'', ''tags'',
      ''publish_date'', ''author_info'']"

definition GetArticles ::
  "dynamodbClient \<Rightarrow> world \<Rightarrow> (Article list option \<times> error option) \<times> world"
where
  "GetArticles db w =
     (case Build scan_filter scan_projection of
        Inl err \<Rightarrow> ((None, Some err), w)
      | Inr (filt, proj) \<Rightarrow>
          (case Scan (tablename db) (Some filt) (Some proj) w of
             ((result, Some err), w') \<Rightarrow> ((None, Some err), w')
           | ((result, None), w') \<Rightarrow>
               (case decode_items (Items result) [] of
                  Inl err \<Rightarrow> ((None, Some err), w')
                | Inr articles \<Rightarrow> ((Some articles, None), w'))))"

text \<open>\<^verbatim>\<open>GetArticlesByAuthor\<close>, lines 81 to 94, and its loop over the listing.\<close>

fun author_loop :: "string \<Rightarrow> Article list \<Rightarrow> Article list \<Rightarrow> Article list" where
  "author_loop author_id [] authorArticles = authorArticles"
| "author_loop author_id (article # articles) authorArticles =
     (if ID (Author article) = author_id
      then author_loop author_id articles (authorArticles @ [article])
      else author_loop author_id articles authorArticles)"

definition GetArticlesByAuthor ::
  "dynamodbClient \<Rightarrow> string \<Rightarrow> world \<Rightarrow> (Article list option \<times> error option) outcome \<times> world"
where
  "GetArticlesByAuthor db author_id w =
     (case GetArticles db w of
        ((articles, Some err), w') \<Rightarrow> (Returned (None, Some err), w')
      | ((None, None), w') \<Rightarrow> (NilDereference, w')
      | ((Some articles, None), w') \<Rightarrow>
          (Returned (Some (author_loop author_id articles []), None), w'))"

text \<open>
  \<^verbatim>\<open>GetArticlesByTag\<close>, lines 96 to 133: a query on the index \<^verbatim>\<open>TagsIndex\<close> with
  the key condition \<^verbatim>\<open>Tag = :tag\<close> and the filter \<^verbatim>\<open>contains(Tags, :tag)\<close>; both
  error branches call \<^verbatim>\<open>log.Fatalf\<close>.
\<close>

definition GetArticlesByTag ::
  "dynamodbClient \<Rightarrow> string \<Rightarrow> world \<Rightarrow> (Article list option \<times> error option) outcome \<times> world"
where
  "GetArticlesByTag db tag w =
     (case Query (tablename db) ''TagsIndex'' (Equal ''Tag'' (S tag))
             (Some (Contains ''Tags'' (S tag))) w of
        ((result, Some err), w') \<Rightarrow> (Fatal (''Query error: '' @ Error err), w')
      | ((result, None), w') \<Rightarrow>
          (case decode_items (Items result) [] of
             Inl err \<Rightarrow> (Fatal (''Error unmarshaling item: '' @ Error err), w')
           | Inr articles \<Rightarrow> (Returned (Some articles, None), w')))"

text \<open>
  \<^verbatim>\<open>UpdateArticle\<close>, lines 179 to 197; reading \<^verbatim>\<open>article.ArticleID\<close> through a
  nil pointer would panic.
\<close>

definition UpdateArticle ::
  "dynamodbClient \<Rightarrow> nat option \<Rightarrow> world \<Rightarrow> (nat option \<times> error option) outcome \<times> world"
where
  "UpdateArticle db article w =
     (case MarshalMap (deref w article) of
        Inl err \<Rightarrow> (Returned (None, Some err), w)
      | Inr entityParsed \<Rightarrow>
          (case PutItem (tablename db) entityParsed w of
             (Some err, w') \<Rightarrow> (Returned (None, Some err), w')
           | (None, w') \<Rightarrow>
               (case deref w' article of
                  None \<Rightarrow> (NilDereference, w')
                | Some a \<Rightarrow>
                    (case GetArticleByID db (ArticleID a) w' of
                       (r, w'') \<Rightarrow> (Returned r, w'')))))"

text \<open>\<^verbatim>\<open>DeleteArticle\<close>, lines 199 to 217.\<close>

definition DeleteArticle :: "dynamodbClient \<Rightarrow> string \<Rightarrow> world \<Rightarrow> error option \<times> world" where
  "DeleteArticle db article_id w =
     (case DeleteItem (tablename db) [(''article_id'', S article_id)] w of
        ((res, err), w') \<Rightarrow>
          if res = None then (err, w')
          else if err \<noteq> None then (err, w')
          else (None, w'))"

text \<open>
  \<^verbatim>\<open>DeleteArticleAll\<close>, lines 219 to 229; the loop drops the result of every
  \<^verbatim>\<open>DeleteArticle\<close>.
\<close>

fun delete_loop :: "dynamodbClient \<Rightarrow> Article list \<Rightarrow> world \<Rightarrow> world" where
  "delete_loop db [] w = w"
| "delete_loop db (article # articles) w =
     delete_loop db articles (snd (DeleteArticle db (ArticleID article) w))"

definition DeleteArticleAll :: "dynamodbClient \<Rightarrow> world \<Rightarrow> error option outcome \<times> world" where
  "DeleteArticleAll db w =
     (case GetArticles db w of
        ((articles, Some err), w') \<Rightarrow> (Returned (Some err), w')
      | ((None, None), w') \<Rightarrow> (NilDereference, w')
      | ((Some articles, None), w') \<Rightarrow> (Returned None, delete_loop db articles w'))"

subsection \<open>Example data\<close>

definition repo :: dynamodbClient where
  "repo = \<lparr>tablename = ''articles''\<rparr>"

definition article1 :: Article where
  "article1 =
     \<lparr>ArticleID = ''article1'', Title = ''T'', Subtitle = [], Introduction = [],
      Body = ''text'', Tags = [''go'', ''db''], PublishDate = ''2024-01-01T00:00:00Z'',
      Author = \<lparr>ID = ''u1'', Name = ''Ann''\<rparr>\<rparr>"

definition article2 :: Article where
  "article2 =
     \<lparr>ArticleID = ''article2'', Title = ''U'', Subtitle = ''s'', Introduction = [],
      Body = [], Tags = [], PublishDate = [],
      Author = \<lparr>ID = ''u2'', Name = ''Bob''\<rparr>\<rparr>"

text \<open>An empty table with the tag index, no failing request, and two articles on the heap.\<close>

definition empty_store :: world where
  "empty_store =
     \<lparr>table_name = ''articles'', rows = [], indexes = [(''TagsIndex'', ''Tag'')],
      page_limit = 100, faults = (\<lambda>n. None), requests = [],
      heap = [article1, article2]\<rparr>"

text \<open>The table holding both articles.\<close>

definition full_store :: world where
  "full_store = empty_store\<lparr>rows := [encoded article1, encoded article2]\<rparr>"

text \<open>The same, with a transport failure on the first request.\<close>

definition failing_store :: world where
  "failing_store = full_store\<lparr>faults :=
     (\<lambda>n. if n = 0 then Some (RequestFailure ''RequestError: send request failed'') else None)\<rparr>"

text \<open>A table with one item whose title is not a string.\<close>

definition foreign_store :: world where
  "foreign_store =
     empty_store\<lparr>rows := [[(''article_id'', S ''bad''), (''title'', BOOL True)]]\<rparr>"

text \<open>A revision of the first article, alone on the heap, with both articles stored.\<close>

definition revised :: Article where
  "revised = article1\<lparr>Title := ''New title'', Tags := [''go'']\<rparr>"

definition update_store :: world where
  "update_store = full_store\<lparr>heap := [revised]\<rparr>"

text \<open>Both articles stored, and a transport failure on the third request.\<close>

definition flaky_store :: world where
  "flaky_store = full_store\<lparr>faults :=
     (\<lambda>n. if n = 2 then Some (RequestFailure ''RequestError: send request failed'') else None)\<rparr>"

text \<open>A table with one item that the tag index lists and whose title is not a string.\<close>

definition tagged_store :: world where
  "tagged_store = empty_store\<lparr>rows :=
     [[(''article_id'', S ''bad''), (''Tag'', S ''go''), (''Tags'', L [S ''go'']),
       (''title'', BOOL True)]]\<rparr>"

lemmas store_defs = send_def next_fault_def PutItem_def GetItem_def DeleteItem_def key_of_def
  request_key_def table_key_def alloc_def load_def

lemmas codec_defs = encode_string_def encode_AuthorInfo_def UnmarshalMap_def and_then_def
  zero_Article_def zero_AuthorInfo_def

lemmas read_defs = GetArticleByID_def new_Article_def not_found_msg_def

lemmas example_defs = repo_def article1_def article2_def empty_store_def encoded_def
  full_store_def

section \<open>Properties\<close>

subsection \<open>The codec and the store calls\<close>

lemma decode_encode_string: "decode_string (Some (encode_string s)) = Inr s"
  by (simp add: encode_string_def)

lemma decode_encode_elements: "decode_elements (map encode_string ts) = Inr ts"
  by (induction ts) (simp_all add: decode_encode_string)

lemma decode_encode_AuthorInfo: "decode_AuthorInfo (Some (encode_AuthorInfo au)) = Inr au"
  by (simp add: encode_AuthorInfo_def decode_encode_string)

text \<open>Decoding the item of an article gives the article back, field by field.\<close>

lemma UnmarshalMap_MarshalMap:
  "MarshalMap (Some a) = Inr m \<Longrightarrow> UnmarshalMap m = Inr a"
  by (auto simp: UnmarshalMap_def and_then_def decode_encode_string decode_encode_elements
      decode_encode_AuthorInfo)

lemma key_of_MarshalMap:
  "MarshalMap (Some a) = Inr m \<Longrightarrow>
     key_of m = (if ArticleID a = [] then None else Some (ArticleID a))"
  by (auto simp: key_of_def table_key_def encode_string_def)

lemma request_key_article_id:
  "request_key [(''article_id'', S k)] = (if k = [] then None else Some k)"
  by (simp add: request_key_def key_of_def table_key_def)

lemma send_cases:
  "send r tn w = (e, w') \<Longrightarrow>
     w' = w\<lparr>requests := requests w @ [r]\<rparr> \<and>
     (e = None \<longleftrightarrow> next_fault w = None \<and> tn = table_name w)"
  by (auto simp: send_def Let_def split: option.splits if_splits)

lemma send_ok:
  "next_fault w = None \<Longrightarrow> tn = table_name w \<Longrightarrow>
     send r tn w = (None, w\<lparr>requests := requests w @ [r]\<rparr>)"
  by (simp add: send_def Let_def)

lemma PutItem_ok:
  "PutItem tn it w = (None, w') \<Longrightarrow>
     (\<exists>k. key_of it = Some k \<and> next_fault w = None \<and> tn = table_name w \<and>
       w' = w\<lparr>requests := requests w @ [PutItemReq tn it],
              rows := [r \<leftarrow> rows w. key_of r \<noteq> Some k] @ [it]\<rparr>)"
  by (auto simp: PutItem_def dest!: send_cases split: prod.splits option.splits)

lemma find_after_put:
  "key_of it = Some k \<Longrightarrow>
     find (\<lambda>r. key_of r = Some k) ([r \<leftarrow> rs. key_of r \<noteq> Some k] @ [it]) = Some it"
  by (induction rs) auto

lemma GetItem_ok:
  "next_fault w = None \<Longrightarrow> tn = table_name w \<Longrightarrow> k \<noteq> [] \<Longrightarrow>
     GetItem tn [(''article_id'', S k)] w =
       ((find (\<lambda>r. key_of r = Some k) (rows w), None),
        w\<lparr>requests := requests w @ [GetItemReq tn [(''article_id'', S k)]]\<rparr>)"
  by (simp add: GetItem_def send_ok request_key_article_id)

text \<open>What a successful \<^verbatim>\<open>CreateArticle\<close> has done.\<close>

lemma CreateArticle_ok:
  assumes "CreateArticle db article w = ((r, None), w1)"
  shows "\<exists>a m. deref w article = Some a \<and> MarshalMap (Some a) = Inr m \<and> ArticleID a \<noteq> [] \<and>
           next_fault w = None \<and> tablename db = table_name w \<and> r = article \<and>
           w1 = w\<lparr>requests := requests w @ [PutItemReq (tablename db) m],
                  rows := [r \<leftarrow> rows w. key_of r \<noteq> Some (ArticleID a)] @ [m]\<rparr>"
proof (cases "deref w article")
  case None
  with assms show ?thesis
    by (auto simp: CreateArticle_def key_of_def dest!: PutItem_ok
        split: prod.splits option.splits)
next
  case (Some a)
  obtain m where m: "MarshalMap (Some a) = Inr m" by simp
  from assms Some m have put: "PutItem (tablename db) m w = (None, w1)" and r: "r = article"
    by (auto simp: CreateArticle_def split: prod.splits option.splits)
  from PutItem_ok [OF put] key_of_MarshalMap [OF m] Some m r show ?thesis
    by (auto split: if_splits)
qed

text \<open>Reading an id whose item is the encoding of an article.\<close>

lemma GetArticleByID_found:
  assumes "next_fault w = None" and "tablename db = table_name w" and "k \<noteq> []"
    and "find (\<lambda>r. key_of r = Some k) (rows w) = Some m" and "UnmarshalMap m = Inr A"
  shows "GetArticleByID db k w =
           ((Some (length (heap w)), None),
            w\<lparr>requests := requests w @ [GetItemReq (tablename db) [(''article_id'', S k)]],
              heap := heap w @ [A]\<rparr>)"
  using GetItem_ok [OF assms(1,2,3)] assms(4,5)
  by (simp add: GetArticleByID_def new_Article_def alloc_def)

subsection \<open>Create, then read\<close>

text \<open>
  Claim C1. Let \<open>A\<close> be the article the caller's pointer refers to, and let
  \<^verbatim>\<open>CreateArticle\<close> succeed on it. If the next request to the store does not fail,
  \<^verbatim>\<open>GetArticleByID\<close> on the id of \<open>A\<close>, called right after, returns no error and
  a pointer to an article equal to \<open>A\<close> in every field.
\<close>

theorem CreateArticle_then_GetArticleByID:
  assumes "load w p = Some A"
    and "CreateArticle db (Some p) w = ((r, None), w1)"
    and "next_fault w1 = None"
  shows "fst (GetArticleByID db (ArticleID A) w1) = (Some (length (heap w1)), None) \<and>
         load (snd (GetArticleByID db (ArticleID A) w1)) (length (heap w1)) = Some A"
proof -
  from CreateArticle_ok [OF assms(2)] assms(1)
  obtain m where m: "MarshalMap (Some A) = Inr m" and id: "ArticleID A \<noteq> []"
    and tn: "tablename db = table_name w"
    and w1: "w1 = w\<lparr>requests := requests w @ [PutItemReq (tablename db) m],
                  rows := [r \<leftarrow> rows w. key_of r \<noteq> Some (ArticleID A)] @ [m]\<rparr>"
    by auto
  have k: "key_of m = Some (ArticleID A)"
    using key_of_MarshalMap [OF m] id by simp
  have found: "find (\<lambda>r. key_of r = Some (ArticleID A)) (rows w1) = Some m"
    using find_after_put [OF k] w1 by simp
  have tn1: "tablename db = table_name w1"
    using tn w1 by simp
  show ?thesis
    using GetArticleByID_found [OF assms(3) tn1 id found UnmarshalMap_MarshalMap [OF m]]
    by (simp add: load_def)
qed

theorem CreateArticle_then_GetArticleByID_witness:
  "load empty_store 0 = Some article1 \<and>
   CreateArticle repo (Some 0) empty_store = ((Some 0, None), snd (CreateArticle repo (Some 0) empty_store)) \<and>
   next_fault (snd (CreateArticle repo (Some 0) empty_store)) = None \<and>
   fst (GetArticleByID repo ''article1'' (snd (CreateArticle repo (Some 0) empty_store))) = (Some 2, None) \<and>
   load (snd (GetArticleByID repo ''article1'' (snd (CreateArticle repo (Some 0) empty_store)))) 2 = Some article1"
proof -
  have h1: "load empty_store 0 = Some article1"
    by (simp add: example_defs store_defs)
  have h2: "CreateArticle repo (Some 0) empty_store = ((Some 0, None), snd (CreateArticle repo (Some 0) empty_store))"
    by (simp add: example_defs store_defs codec_defs CreateArticle_def read_defs)
  have h3: "next_fault (snd (CreateArticle repo (Some 0) empty_store)) = None"
    by (simp add: example_defs store_defs codec_defs CreateArticle_def read_defs)
  have h4: "ArticleID article1 = ''article1''"
    by (simp add: article1_def)
  have h5: "length (heap (snd (CreateArticle repo (Some 0) empty_store))) = 2"
    by (simp add: example_defs store_defs codec_defs CreateArticle_def read_defs)
  from CreateArticle_then_GetArticleByID [OF h1 h2 h3] h1 h2 h3 show ?thesis
    unfolding h4 h5 by simp
qed

lemma find_absent:
  "\<forall>r \<in> set rs. key_of r \<noteq> Some k \<Longrightarrow> find (\<lambda>r. key_of r = Some k) rs = None"
  by (simp add: find_None_iff)

subsection \<open>Reading an id that is not stored\<close>

text \<open>
  Claim C3. When no item of the table has the requested id, \<^verbatim>\<open>GetArticleByID\<close>
  returns the error of the store call if that call failed, and otherwise the
  not-found error, whose message contains the id; it returns no other error.
\<close>

theorem GetArticleByID_absent:
  assumes "\<forall>r \<in> set (rows w). key_of r \<noteq> Some article_id"
  shows "snd (fst (GetArticleByID db article_id w)) =
     (case snd (fst (GetItem (tablename db) [(''article_id'', S article_id)] w)) of
        Some err \<Rightarrow> Some err
      | None \<Rightarrow> Some (ErrorString (''Article with id [ '' @ article_id @ '' ] not found'')))"
  using find_absent [OF assms]
  by (auto simp: GetArticleByID_def GetItem_def new_Article_def alloc_def not_found_msg_def
      request_key_article_id dest!: send_cases split: prod.splits option.splits if_splits)

theorem GetArticleByID_absent_witness:
  "map key_of (rows full_store) = [Some ''article1'', Some ''article2''] \<and>
   snd (fst (GetItem (tablename repo) [(''article_id'', S ''a3'')] full_store)) = None \<and>
   snd (fst (GetArticleByID repo ''a3'' full_store)) =
     Some (ErrorString ''Article with id [ a3 ] not found'')"
proof -
  have h: "\<forall>r \<in> set (rows full_store). key_of r \<noteq> Some ''a3''"
    by (simp add: example_defs store_defs codec_defs)
  have g: "snd (fst (GetItem (tablename repo) [(''article_id'', S ''a3'')] full_store)) = None"
    by (simp add: example_defs store_defs codec_defs)
  have ks: "map key_of (rows full_store) = [Some ''article1'', Some ''article2'']"
    by (simp add: example_defs store_defs codec_defs)
  from GetArticleByID_absent [OF h, of repo] ks g show ?thesis
    by simp
qed

subsection \<open>The pointer returned by a read\<close>

text \<open>
  Claim C9. \<^verbatim>\<open>GetArticleByID\<close> never returns a nil pointer: it returns the address
  of a freshly allocated article, and whenever it returns an error (a failed store
  call, an absent item, an item that does not decode) that article is the zero value.
\<close>

theorem GetArticleByID_pointer:
  "fst (fst (GetArticleByID db article_id w)) = Some (length (heap w)) \<and>
   load (snd (GetArticleByID db article_id w)) (length (heap w)) \<noteq> None \<and>
   (snd (fst (GetArticleByID db article_id w)) \<noteq> None \<longrightarrow>
      load (snd (GetArticleByID db article_id w)) (length (heap w)) = Some zero_Article)"
  by (auto simp: GetArticleByID_def GetItem_def new_Article_def alloc_def load_def
      dest!: send_cases split: prod.splits option.splits sum.splits)

theorem GetArticleByID_pointer_witness:
  "snd (fst (GetArticleByID repo ''article1'' failing_store)) =
     Some (RequestFailure ''RequestError: send request failed'') \<and>
   fst (fst (GetArticleByID repo ''article1'' failing_store)) = Some 2 \<and>
   load (snd (GetArticleByID repo ''article1'' failing_store)) 2 = Some zero_Article \<and>
   snd (fst (GetArticleByID repo ''a3'' full_store)) =
     Some (ErrorString ''Article with id [ a3 ] not found'') \<and>
   fst (fst (GetArticleByID repo ''a3'' full_store)) = Some 2 \<and>
   load (snd (GetArticleByID repo ''a3'' full_store)) 2 = Some zero_Article \<and>
   snd (fst (GetArticleByID repo ''bad'' foreign_store)) = Some UnmarshalTypeError \<and>
   fst (fst (GetArticleByID repo ''bad'' foreign_store)) = Some 2 \<and>
   load (snd (GetArticleByID repo ''bad'' foreign_store)) 2 = Some zero_Article"
proof -
  have e1: "snd (fst (GetArticleByID repo ''article1'' failing_store)) =
      Some (RequestFailure ''RequestError: send request failed'')"
    by (simp add: example_defs failing_store_def foreign_store_def store_defs codec_defs read_defs)
  have e2: "snd (fst (GetArticleByID repo ''a3'' full_store)) =
      Some (ErrorString ''Article with id [ a3 ] not found'')"
    by (simp add: example_defs failing_store_def foreign_store_def store_defs codec_defs read_defs)
  have e3: "snd (fst (GetArticleByID repo ''bad'' foreign_store)) = Some UnmarshalTypeError"
    by (simp add: example_defs failing_store_def foreign_store_def store_defs codec_defs read_defs)
  have l1: "length (heap failing_store) = 2" and l2: "length (heap full_store) = 2"
    and l3: "length (heap foreign_store) = 2"
    by (simp_all add: example_defs failing_store_def foreign_store_def)
  from GetArticleByID_pointer [of repo "''article1''" failing_store]
    GetArticleByID_pointer [of repo "''a3''" full_store]
    GetArticleByID_pointer [of repo "''bad''" foreign_store] e1 e2 e3
  show ?thesis
    unfolding l1 l2 l3 by simp
qed

subsection \<open>Deleting one article\<close>

lemma DeleteItem_result:
  "DeleteItem tn [(''article_id'', S k)] w =
     (if next_fault w = None \<and> tn = table_name w \<and> k \<noteq> []
      then ((Some (), None),
            w\<lparr>requests := requests w @ [DeleteItemReq tn [(''article_id'', S k)]],
              rows := [r \<leftarrow> rows w. key_of r \<noteq> Some k]\<rparr>)
      else ((Some (), Some (case next_fault w of Some err \<Rightarrow> err
                | None \<Rightarrow> if tn \<noteq> table_name w then RequestFailure ''ResourceNotFoundException''
                          else RequestFailure ''ValidationException'')),
            w\<lparr>requests := requests w @ [DeleteItemReq tn [(''article_id'', S k)]]\<rparr>))"
  by (auto simp: DeleteItem_def send_def Let_def request_key_article_id split: option.splits)

lemma DeleteArticle_result:
  "DeleteArticle db k w =
     (if next_fault w = None \<and> tablename db = table_name w \<and> k \<noteq> []
      then (None,
            w\<lparr>requests := requests w @ [DeleteItemReq (tablename db) [(''article_id'', S k)]],
              rows := [r \<leftarrow> rows w. key_of r \<noteq> Some k]\<rparr>)
      else (Some (case next_fault w of Some err \<Rightarrow> err
                | None \<Rightarrow> if tablename db \<noteq> table_name w
                          then RequestFailure ''ResourceNotFoundException''
                          else RequestFailure ''ValidationException''),
            w\<lparr>requests := requests w @ [DeleteItemReq (tablename db) [(''article_id'', S k)]]\<rparr>))"
  by (simp add: DeleteArticle_def DeleteItem_result)

text \<open>
  Claim C8. \<^verbatim>\<open>DeleteArticle\<close> returns exactly the error of its store call: it
  succeeds whenever that call goes through, whether or not an item with the id was
  stored. After a successful delete, a read of the same id whose store call goes
  through returns the not-found error.
\<close>

theorem DeleteArticle_then_not_found:
  "fst (DeleteArticle db article_id w) =
     snd (fst (DeleteItem (tablename db) [(''article_id'', S article_id)] w)) \<and>
   (next_fault w = None \<and> tablename db = table_name w \<and> article_id \<noteq> [] \<longrightarrow>
      fst (DeleteArticle db article_id w) = None) \<and>
   (fst (DeleteArticle db article_id w) = None \<and>
    next_fault (snd (DeleteArticle db article_id w)) = None \<longrightarrow>
      snd (fst (GetArticleByID db article_id (snd (DeleteArticle db article_id w)))) =
        Some (ErrorString (''Article with id [ '' @ article_id @ '' ] not found'')))"
proof (intro conjI impI)
  show "fst (DeleteArticle db article_id w) =
     snd (fst (DeleteItem (tablename db) [(''article_id'', S article_id)] w))"
    by (simp add: DeleteArticle_result DeleteItem_result)
next
  assume "next_fault w = None \<and> tablename db = table_name w \<and> article_id \<noteq> []"
  then show "fst (DeleteArticle db article_id w) = None"
    by (simp add: DeleteArticle_result)
next
  let ?w = "snd (DeleteArticle db article_id w)"
  assume a: "fst (DeleteArticle db article_id w) = None \<and> next_fault ?w = None"
  then have ok: "next_fault w = None \<and> tablename db = table_name w \<and> article_id \<noteq> []"
    by (simp add: DeleteArticle_result split: if_splits)
  then have w': "?w = w\<lparr>requests := requests w @
        [DeleteItemReq (tablename db) [(''article_id'', S article_id)]],
      rows := [r \<leftarrow> rows w. key_of r \<noteq> Some article_id]\<rparr>"
    by (simp add: DeleteArticle_result)
  have none: "find (\<lambda>r. key_of r = Some article_id) (rows ?w) = None"
    unfolding w' by (simp add: find_None_iff)
  have tn: "tablename db = table_name ?w"
    unfolding w' using ok by simp
  from a have nf: "next_fault ?w = None" by simp
  show "snd (fst (GetArticleByID db article_id ?w)) =
        Some (ErrorString (''Article with id [ '' @ article_id @ '' ] not found''))"
    using GetItem_ok [OF nf tn, of article_id] ok none
    by (simp add: GetArticleByID_def new_Article_def alloc_def not_found_msg_def)
qed

theorem DeleteArticle_then_not_found_witness:
  "map key_of (rows full_store) = [Some ''article1'', Some ''article2''] \<and>
   next_fault full_store = None \<and> tablename repo = table_name full_store \<and> ''a3'' \<noteq> [] \<and>
   fst (DeleteArticle repo ''a3'' full_store) = None \<and>
   next_fault (snd (DeleteArticle repo ''a3'' full_store)) = None \<and>
   snd (fst (GetArticleByID repo ''a3'' (snd (DeleteArticle repo ''a3'' full_store)))) =
     Some (ErrorString ''Article with id [ a3 ] not found'') \<and>
   fst (DeleteArticle repo ''article1'' full_store) = None \<and>
   next_fault (snd (DeleteArticle repo ''article1'' full_store)) = None \<and>
   snd (fst (GetArticleByID repo ''article1'' (snd (DeleteArticle repo ''article1'' full_store)))) =
     Some (ErrorString ''Article with id [ article1 ] not found'')"
proof -
  have h: "map key_of (rows full_store) = [Some ''article1'', Some ''article2'']"
    by (simp add: example_defs store_defs codec_defs)
  have p: "next_fault full_store = None \<and> tablename repo = table_name full_store"
    by (simp add: example_defs store_defs)
  have n3: "next_fault (snd (DeleteArticle repo ''a3'' full_store)) = None"
    and n1: "next_fault (snd (DeleteArticle repo ''article1'' full_store)) = None"
    by (simp_all add: example_defs store_defs DeleteArticle_def read_defs)
  from DeleteArticle_then_not_found [of repo "''a3''" full_store, THEN conjunct2]
    DeleteArticle_then_not_found [of repo "''article1''" full_store, THEN conjunct2] h p n3 n1
  show ?thesis by simp
qed

subsection \<open>Update\<close>

lemma PutItem_heap: "heap (snd (PutItem tn it w)) = heap w"
  by (simp add: PutItem_def send_def Let_def split: option.splits)

lemma GetArticleByID_heap:
  "\<exists>a. heap (snd (GetArticleByID db k w)) = heap w @ [a]"
  by (auto simp: GetArticleByID_def GetItem_def new_Article_def alloc_def
      dest!: send_cases split: prod.splits option.splits sum.splits)

lemma GetArticleByID_success:
  "GetArticleByID db k w = ((r, None), w') \<Longrightarrow>
     next_fault w = None \<and> tablename db = table_name w \<and> k \<noteq> []"
  by (auto simp: GetArticleByID_def GetItem_def new_Article_def alloc_def request_key_article_id
      dest!: send_cases split: prod.splits option.splits sum.splits if_splits)

lemma UpdateArticle_as_create_then_read:
  assumes "load w p = Some A'"
  shows "UpdateArticle db (Some p) w =
     (case CreateArticle db (Some p) w of
        ((r, Some err), w1) \<Rightarrow> (Returned (None, Some err), w1)
      | ((r, None), w1) \<Rightarrow>
          (case GetArticleByID db (ArticleID A') w1 of (r', w2) \<Rightarrow> (Returned r', w2)))"
proof -
  obtain m where m: "MarshalMap (Some A') = Inr m" by simp
  obtain e w1 where put: "PutItem (tablename db) m w = (e, w1)"
    by (cases "PutItem (tablename db) m w")
  have "heap w1 = heap w"
    using PutItem_heap [of "tablename db" m w] put by simp
  then have "load w1 p = Some A'"
    using assms by (simp add: load_def split: if_splits)
  then show ?thesis
    using assms put m
    by (simp add: UpdateArticle_def CreateArticle_def del: MarshalMap.simps
        split: option.splits)
qed

text \<open>
  Claim C5. \<^verbatim>\<open>UpdateArticle\<close> is \<^verbatim>\<open>CreateArticle\<close> followed, when the write
  succeeded, by \<^verbatim>\<open>GetArticleByID\<close> on the id of the given article, whose result
  it returns. When it succeeds, the returned pointer refers to an article equal to
  the given one, the table holds exactly one item under that id, the encoding of the
  given article, and a further read of the id whose store call goes through returns
  the given article again.
\<close>

theorem UpdateArticle_overwrites_then_rereads:
  assumes "load w p = Some A'"
  shows "UpdateArticle db (Some p) w =
     (case CreateArticle db (Some p) w of
        ((r, Some err), w1) \<Rightarrow> (Returned (None, Some err), w1)
      | ((r, None), w1) \<Rightarrow>
          (case GetArticleByID db (ArticleID A') w1 of (r', w2) \<Rightarrow> (Returned r', w2))) \<and>
   (\<forall>r w2. UpdateArticle db (Some p) w = (Returned (r, None), w2) \<longrightarrow>
      deref w2 r = Some A' \<and>
      [it \<leftarrow> rows w2. key_of it = Some (ArticleID A')] = [encoded A'] \<and>
      (next_fault w2 = None \<longrightarrow>
         fst (GetArticleByID db (ArticleID A') w2) = (Some (length (heap w2)), None) \<and>
         load (snd (GetArticleByID db (ArticleID A') w2)) (length (heap w2)) = Some A'))"
proof (intro conjI allI impI)
  show "UpdateArticle db (Some p) w =
     (case CreateArticle db (Some p) w of
        ((r, Some err), w1) \<Rightarrow> (Returned (None, Some err), w1)
      | ((r, None), w1) \<Rightarrow>
          (case GetArticleByID db (ArticleID A') w1 of (r', w2) \<Rightarrow> (Returned r', w2)))"
    by (rule UpdateArticle_as_create_then_read [OF assms])
next
  fix r w2
  assume upd: "UpdateArticle db (Some p) w = (Returned (r, None), w2)"
  obtain rc ec w1 where cr: "CreateArticle db (Some p) w = ((rc, ec), w1)"
    by (cases "CreateArticle db (Some p) w") auto
  from upd cr have ec: "ec = None" and get: "GetArticleByID db (ArticleID A') w1 = ((r, None), w2)"
    unfolding UpdateArticle_as_create_then_read [OF assms]
    by (auto split: option.splits prod.splits)
  from CreateArticle_ok [OF cr [unfolded ec]] assms
  obtain m where m: "MarshalMap (Some A') = Inr m" and id: "ArticleID A' \<noteq> []"
    and tn: "tablename db = table_name w"
    and w1: "w1 = w\<lparr>requests := requests w @ [PutItemReq (tablename db) m],
                  rows := [r \<leftarrow> rows w. key_of r \<noteq> Some (ArticleID A')] @ [m]\<rparr>"
    by auto
  have k: "key_of m = Some (ArticleID A')"
    using key_of_MarshalMap [OF m] id by simp
  have found: "find (\<lambda>r. key_of r = Some (ArticleID A')) (rows w1) = Some m"
    using find_after_put [OF k] w1 by simp
  have tn1: "tablename db = table_name w1"
    using tn w1 by simp
  have nf1: "next_fault w1 = None"
    using GetArticleByID_success [OF get] by simp
  have w2: "w2 = w1\<lparr>requests := requests w1 @
        [GetItemReq (tablename db) [(''article_id'', S (ArticleID A'))]],
      heap := heap w1 @ [A']\<rparr>" and r: "r = Some (length (heap w1))"
    using GetArticleByID_found [OF nf1 tn1 id found UnmarshalMap_MarshalMap [OF m]] get
    by simp_all
  show "deref w2 r = Some A'"
    unfolding w2 r by (simp add: load_def)
  have "[it \<leftarrow> rows w2. key_of it = Some (ArticleID A')] = [m]"
    unfolding w2 w1 using k by (simp add: filter_empty_conv)
  then show "[it \<leftarrow> rows w2. key_of it = Some (ArticleID A')] = [encoded A']"
    using m by (simp add: encoded_def)
  assume nf2: "next_fault w2 = None"
  have found2: "find (\<lambda>r. key_of r = Some (ArticleID A')) (rows w2) = Some m"
    using found w2 by simp
  have tn2: "tablename db = table_name w2"
    using tn1 w2 by simp
  show "fst (GetArticleByID db (ArticleID A') w2) = (Some (length (heap w2)), None)"
    using GetArticleByID_found [OF nf2 tn2 id found2 UnmarshalMap_MarshalMap [OF m]]
    by simp
  show "load (snd (GetArticleByID db (ArticleID A') w2)) (length (heap w2)) = Some A'"
    using GetArticleByID_found [OF nf2 tn2 id found2 UnmarshalMap_MarshalMap [OF m]]
    by (simp add: load_def)
qed


theorem UpdateArticle_overwrites_then_rereads_witness:
  "load update_store 0 = Some revised \<and>
   fst (UpdateArticle repo (Some 0) update_store) = Returned (Some 1, None) \<and>
   deref (snd (UpdateArticle repo (Some 0) update_store)) (Some 1) = Some revised \<and>
   next_fault (snd (UpdateArticle repo (Some 0) update_store)) = None \<and>
   fst (GetArticleByID repo ''article1'' (snd (UpdateArticle repo (Some 0) update_store))) =
     (Some 2, None) \<and>
   load (snd (GetArticleByID repo ''article1'' (snd (UpdateArticle repo (Some 0) update_store))))
     2 = Some revised"
proof -
  let ?w = "snd (UpdateArticle repo (Some 0) update_store)"
  have h1: "load update_store 0 = Some revised"
    by (simp add: example_defs revised_def update_store_def store_defs)
  have h2: "UpdateArticle repo (Some 0) update_store = (Returned (Some 1, None), ?w)"
    by (simp add: example_defs revised_def update_store_def store_defs codec_defs UpdateArticle_def read_defs)
  have h3: "next_fault ?w = None"
    by (simp add: example_defs revised_def update_store_def store_defs codec_defs UpdateArticle_def read_defs)
  have h4: "ArticleID revised = ''article1''"
    by (simp add: example_defs revised_def update_store_def)
  have h5: "length (heap ?w) = 2"
    by (simp add: example_defs revised_def update_store_def store_defs codec_defs UpdateArticle_def read_defs)
  have h6: "fst (UpdateArticle repo (Some 0) update_store) = Returned (Some 1, None)"
    by (simp add: example_defs revised_def update_store_def store_defs codec_defs UpdateArticle_def read_defs)
  from UpdateArticle_overwrites_then_rereads [OF h1, of repo, THEN conjunct2, rule_format, OF h2]
    h1 h3 h6
  show ?thesis
    unfolding h4 h5 by simp
qed

subsection \<open>The caller's article\<close>

text \<open>
  Claim C10. \<^verbatim>\<open>CreateArticle\<close> leaves the heap as it is and on success returns
  the very pointer it was given; \<^verbatim>\<open>UpdateArticle\<close> only allocates, so every
  article that was on the heap before the call, the caller's argument among them, is
  unchanged after it.
\<close>

theorem Create_Update_keep_argument:
  "heap (snd (CreateArticle db article w)) = heap w \<and>
   (snd (fst (CreateArticle db article w)) = None \<longrightarrow>
      fst (fst (CreateArticle db article w)) = article) \<and>
   take (length (heap w)) (heap (snd (UpdateArticle db article w))) = heap w \<and>
   (load w p = Some A \<longrightarrow>
      load (snd (CreateArticle db (Some p) w)) p = Some A \<and>
      load (snd (UpdateArticle db (Some p) w)) p = Some A)"
proof -
  have c: "heap (snd (CreateArticle db article w)) = heap w" for article
  proof -
    obtain m where m: "MarshalMap (deref w article) = Inr m"
      by (cases "deref w article") simp_all
    obtain e w1 where put: "PutItem (tablename db) m w = (e, w1)"
      by (cases "PutItem (tablename db) m w")
    have "heap w1 = heap w"
      using PutItem_heap [of "tablename db" m w] put by simp
    with m put show ?thesis
      by (simp add: CreateArticle_def split: option.splits)
  qed
  have r: "snd (fst (CreateArticle db article w)) = None \<longrightarrow>
      fst (fst (CreateArticle db article w)) = article"
    by (auto simp: CreateArticle_def split: sum.splits prod.splits option.splits)
  have u: "take (length (heap w)) (heap (snd (UpdateArticle db article w))) = heap w"
    for article
  proof -
    obtain m where m: "MarshalMap (deref w article) = Inr m"
      by (cases "deref w article") simp_all
    obtain e w1 where put: "PutItem (tablename db) m w = (e, w1)"
      by (cases "PutItem (tablename db) m w")
    have h1: "heap w1 = heap w"
      using PutItem_heap [of "tablename db" m w] put by simp
    show ?thesis
    proof (cases "e = None \<and> deref w1 article \<noteq> None")
      case True
      then obtain a where a: "deref w1 article = Some a" by auto
      obtain x where "heap (snd (GetArticleByID db (ArticleID a) w1)) = heap w1 @ [x]"
        using GetArticleByID_heap by blast
      with True a m put h1 show ?thesis
        by (simp add: UpdateArticle_def split_beta)
    next
      case False
      with m put h1 show ?thesis
        by (auto simp: UpdateArticle_def split: prod.splits option.splits)
    qed
  qed
  have l: "load w p = Some A \<longrightarrow>
      load (snd (CreateArticle db (Some p) w)) p = Some A \<and>
      load (snd (UpdateArticle db (Some p) w)) p = Some A"
  proof
    assume a: "load w p = Some A"
    then have p: "p < length (heap w)" and A: "heap w ! p = A"
      by (simp_all add: load_def split: if_splits)
    have "heap (snd (UpdateArticle db (Some p) w)) ! p =
        take (length (heap w)) (heap (snd (UpdateArticle db (Some p) w))) ! p"
      using p by simp
    moreover have "length (heap w) \<le> length (heap (snd (UpdateArticle db (Some p) w)))"
    proof -
      have "length (take (length (heap w)) (heap (snd (UpdateArticle db (Some p) w)))) =
          length (heap w)"
        using u [of "Some p"] by simp
      then show ?thesis by simp
    qed
    ultimately have "load (snd (UpdateArticle db (Some p) w)) p = Some A"
      using p A u [of "Some p"] by (simp add: load_def)
    moreover have "load (snd (CreateArticle db (Some p) w)) p = Some A"
      using p A c [of "Some p"] by (simp add: load_def)
    ultimately show "load (snd (CreateArticle db (Some p) w)) p = Some A \<and>
      load (snd (UpdateArticle db (Some p) w)) p = Some A"
      by simp
  qed
  from c r u l show ?thesis by blast
qed

theorem Create_Update_keep_argument_witness:
  "load update_store 0 = Some revised \<and>
   snd (fst (CreateArticle repo (Some 0) update_store)) = None \<and>
   fst (fst (CreateArticle repo (Some 0) update_store)) = Some 0 \<and>
   load (snd (CreateArticle repo (Some 0) update_store)) 0 = Some revised \<and>
   load (snd (UpdateArticle repo (Some 0) update_store)) 0 = Some revised"
proof -
  have h1: "load update_store 0 = Some revised"
    by (simp add: example_defs revised_def update_store_def store_defs)
  have h2: "snd (fst (CreateArticle repo (Some 0) update_store)) = None"
    by (simp add: example_defs revised_def update_store_def store_defs codec_defs CreateArticle_def)
  from Create_Update_keep_argument [of repo "Some 0" update_store 0 revised] h1 h2
  show ?thesis by simp
qed

subsection \<open>Listing all articles\<close>

lemma Build_scan: "Build scan_filter scan_projection = Inr (scan_filter, scan_projection)"
  by (simp add: Build_def scan_filter_def scan_projection_def)

lemma holds_scan_filter_encoded: "holds scan_filter (encoded a)"
  by (simp add: scan_filter_def encoded_def)

lemma project_encoded: "project (Some scan_projection) (encoded a) = encoded a"
  by (simp add: project_def scan_projection_def encoded_def)

lemma UnmarshalMap_encoded: "UnmarshalMap (encoded a) = Inr a"
  by (rule UnmarshalMap_MarshalMap) (simp add: encoded_def)

lemma decode_items_encoded: "decode_items (map encoded as) acc = Inr (acc @ as)"
  by (induction as arbitrary: acc) (simp_all add: UnmarshalMap_encoded)

lemma select_encoded: "select (Some scan_filter) (map encoded as) = map encoded as"
  by (simp add: select_def holds_scan_filter_encoded)

lemma project_all_encoded:
  "map (project (Some scan_projection)) (map encoded as) = map encoded as"
  by (simp add: project_encoded)

lemma Scan_ok:
  "next_fault w = None \<Longrightarrow> tn = table_name w \<Longrightarrow>
     Scan tn filt proj w =
       ((page (page_limit w) filt proj (rows w), None),
        w\<lparr>requests := requests w @ [ScanReq tn filt proj]\<rparr>)"
  by (simp add: Scan_def send_ok)

lemma GetArticles_encoded_rows:
  assumes "rows w = map encoded as" and "next_fault w = None"
    and "tablename db = table_name w"
  shows "GetArticles db w =
     ((Some (take (page_limit w) as), None),
      w\<lparr>requests := requests w @
        [ScanReq (tablename db) (Some scan_filter) (Some scan_projection)]\<rparr>)"
proof -
  have "Items (page (page_limit w) (Some scan_filter) (Some scan_projection) (rows w)) =
      map encoded (take (page_limit w) as)"
    using select_encoded [of "take (page_limit w) as"]
      project_all_encoded [of "take (page_limit w) as"]
    by (simp add: page_def assms(1) take_map)
  then show ?thesis
    using Scan_ok [OF assms(2,3)] decode_items_encoded [of "take (page_limit w) as" "[]"]
    by (simp add: GetArticles_def Build_scan)
qed

text \<open>
  Claim C7. On a table that stores the articles \<open>as\<close>, the filter of
  \<^verbatim>\<open>GetArticles\<close> excludes no item and its projection drops no attribute. When
  the scan request goes through, \<^verbatim>\<open>GetArticles\<close> sends that one request and no
  other, and returns the articles of the single response, in scan order: all stored
  articles when they fit in one response.
\<close>

theorem GetArticles_full_scan:
  assumes "rows w = map encoded as" and "next_fault w = None"
    and "tablename db = table_name w"
  shows "select (Some scan_filter) (rows w) = rows w \<and>
     map (project (Some scan_projection)) (rows w) = rows w \<and>
     GetArticles db w =
       ((Some (take (page_limit w) as), None),
        w\<lparr>requests := requests w @
          [ScanReq (tablename db) (Some scan_filter) (Some scan_projection)]\<rparr>) \<and>
     (length (rows w) \<le> page_limit w \<longrightarrow> fst (fst (GetArticles db w)) = Some as)"
  using GetArticles_encoded_rows [OF assms] select_encoded [of as] project_all_encoded [of as]
    assms(1)
  by simp

theorem GetArticles_full_scan_witness:
  "rows full_store = map encoded [article1, article2] \<and> next_fault full_store = None \<and>
   tablename repo = table_name full_store \<and> length (rows full_store) \<le> page_limit full_store \<and>
   fst (fst (GetArticles repo full_store)) = Some [article1, article2] \<and>
   requests (snd (GetArticles repo full_store)) =
     [ScanReq ''articles'' (Some (AttributeNotExists ''ArticleID''))
        (Some [''article_id'', ''title'', ''subtitle'', ''introduction'', ''body'', ''tags'',
               ''publish_date'', ''author_info''])]"
proof -
  have h1: "rows full_store = map encoded [article1, article2]"
    by (simp add: full_store_def empty_store_def)
  have h2: "next_fault full_store = None"
    by (simp add: full_store_def empty_store_def next_fault_def)
  have h3: "tablename repo = table_name full_store"
    by (simp add: full_store_def empty_store_def repo_def)
  have h4: "length (rows full_store) \<le> page_limit full_store"
    by (simp add: full_store_def empty_store_def)
  have h5: "requests full_store = []" "tablename repo = ''articles''"
    by (simp_all add: full_store_def empty_store_def repo_def)
  from GetArticles_full_scan [OF h1 h2 h3] h1 h2 h3 h4 h5
  show ?thesis
    by (simp add: scan_filter_def scan_projection_def)
qed

subsection \<open>Articles of one author\<close>

lemma author_loop_filter:
  "author_loop x as acc = acc @ [a \<leftarrow> as. ID (Author a) = x]"
  by (induction as arbitrary: acc) simp_all

lemma GetArticles_result:
  "GetArticles db w = ((articles, err), w') \<Longrightarrow>
     (err = None \<longrightarrow> articles \<noteq> None) \<and> (err \<noteq> None \<longrightarrow> articles = None)"
  by (auto simp: GetArticles_def split: sum.splits prod.splits option.splits)

text \<open>
  Claim C4. \<^verbatim>\<open>GetArticlesByAuthor\<close> calls \<^verbatim>\<open>GetArticles\<close> and leaves the world
  as that call left it. When the listing fails it returns that error; otherwise it
  returns exactly the listed articles whose author id is the requested one, and the
  empty sequence with no error when there is none.
\<close>

theorem GetArticlesByAuthor_subset:
  assumes "GetArticles db w = ((articles, err), w')"
  shows "(\<forall>e. err = Some e \<longrightarrow>
            GetArticlesByAuthor db x w = (Returned (None, Some e), w')) \<and>
         (err = None \<longrightarrow> (\<exists>as. articles = Some as \<and>
            GetArticlesByAuthor db x w =
              (Returned (Some [a \<leftarrow> as. ID (Author a) = x], None), w') \<and>
            ((\<forall>a \<in> set as. ID (Author a) \<noteq> x) \<longrightarrow>
               GetArticlesByAuthor db x w = (Returned (Some [], None), w'))))"
proof (intro conjI allI impI)
  fix e assume "err = Some e"
  with assms show "GetArticlesByAuthor db x w = (Returned (None, Some e), w')"
    by (simp add: GetArticlesByAuthor_def split: option.splits)
next
  assume none: "err = None"
  with GetArticles_result [OF assms] obtain as where as: "articles = Some as"
    by auto
  have eq: "GetArticlesByAuthor db x w =
      (Returned (Some [a \<leftarrow> as. ID (Author a) = x], None), w')"
    using assms none as by (simp add: GetArticlesByAuthor_def author_loop_filter)
  moreover have "(\<forall>a \<in> set as. ID (Author a) \<noteq> x) \<longrightarrow>
      GetArticlesByAuthor db x w = (Returned (Some [], None), w')"
    using eq by (simp add: filter_empty_conv)
  ultimately show "\<exists>as. articles = Some as \<and>
      GetArticlesByAuthor db x w =
        (Returned (Some [a \<leftarrow> as. ID (Author a) = x], None), w') \<and>
      ((\<forall>a \<in> set as. ID (Author a) \<noteq> x) \<longrightarrow>
         GetArticlesByAuthor db x w = (Returned (Some [], None), w'))"
    using as by blast
qed

theorem GetArticlesByAuthor_subset_witness:
  "GetArticles repo full_store = ((Some [article1, article2], None), snd (GetArticles repo full_store)) \<and>
   GetArticlesByAuthor repo ''u2'' full_store =
     (Returned (Some [article2], None), snd (GetArticles repo full_store)) \<and>
   map (\<lambda>a. ID (Author a)) [article1, article2] = [''u1'', ''u2''] \<and>
   GetArticlesByAuthor repo ''u9'' full_store =
     (Returned (Some [], None), snd (GetArticles repo full_store))"
proof -
  have "GetArticles repo full_store =
      ((Some (take (page_limit full_store) [article1, article2]), None),
       full_store\<lparr>requests := requests full_store @
         [ScanReq (tablename repo) (Some scan_filter) (Some scan_projection)]\<rparr>)"
    by (rule GetArticles_encoded_rows) (simp_all add: full_store_def empty_store_def repo_def next_fault_def)
  then have g: "GetArticles repo full_store =
      ((Some [article1, article2], None), snd (GetArticles repo full_store))"
    by (simp add: full_store_def empty_store_def)
  have n: "\<forall>a \<in> set [article1, article2]. ID (Author a) \<noteq> ''u9''"
    by (simp add: example_defs)
  have f: "[a \<leftarrow> [article1, article2]. ID (Author a) = ''u2''] = [article2]"
    by (simp add: example_defs)
  have ids: "map (\<lambda>a. ID (Author a)) [article1, article2] = [''u1'', ''u2'']"
    by (simp add: example_defs)
  from GetArticlesByAuthor_subset [OF g, of "''u2''"]
    GetArticlesByAuthor_subset [OF g, of "''u9''"] g n f ids
  show ?thesis by simp
qed

subsection \<open>Deleting all articles\<close>

lemma key_of_nonempty: "key_of r \<noteq> Some []"
  by (simp add: key_of_def split: option.splits attr.splits)

lemma GetArticles_success:
  assumes "GetArticles db w = ((Some as, None), w1)"
  shows "tablename db = table_name w \<and> next_fault w = None \<and>
     w1 = w\<lparr>requests := requests w @
       [ScanReq (tablename db) (Some scan_filter) (Some scan_projection)]\<rparr>"
  using assms
  by (auto simp: GetArticles_def Build_scan Scan_def dest!: send_cases
      split: sum.splits prod.splits option.splits)

lemma delete_loop_effect:
  assumes "tablename db = table_name w"
  shows "requests (delete_loop db as w) =
       requests w @ map (\<lambda>a. DeleteItemReq (tablename db) [(''article_id'', S (ArticleID a))]) as \<and>
     rows (delete_loop db as w) =
       [r \<leftarrow> rows w. \<not> (\<exists>i<length as. key_of r = Some (ArticleID (as ! i)) \<and>
                              faults w (length (requests w) + i) = None)] \<and>
     faults (delete_loop db as w) = faults w \<and>
     table_name (delete_loop db as w) = table_name w"
  using assms
proof (induction as arbitrary: w)
  case Nil
  then show ?case by simp
next
  case (Cons a as)
  let ?w = "snd (DeleteArticle db (ArticleID a) w)"
  let ?ok = "faults w (length (requests w)) = None \<and> ArticleID a \<noteq> []"
  have rq: "requests ?w =
      requests w @ [DeleteItemReq (tablename db) [(''article_id'', S (ArticleID a))]]"
    and f: "faults ?w = faults w" and tn: "table_name ?w = table_name w"
    and rw: "rows ?w = (if ?ok then [r \<leftarrow> rows w. key_of r \<noteq> Some (ArticleID a)] else rows w)"
    using Cons.prems by (simp_all add: DeleteArticle_result next_fault_def)
  have tn': "tablename db = table_name ?w"
    using Cons.prems tn by simp
  note ih = Cons.IH [OF tn']
  have step: "(\<exists>i<length (a # as). key_of r = Some (ArticleID ((a # as) ! i)) \<and>
          faults w (length (requests w) + i) = None) \<longleftrightarrow>
       (?ok \<and> key_of r = Some (ArticleID a)) \<or>
       (\<exists>i<length as. key_of r = Some (ArticleID (as ! i)) \<and>
          faults w (length (requests ?w) + i) = None)" for r
  proof -
    have "(\<exists>i<Suc (length as). key_of r = Some (ArticleID ((a # as) ! i)) \<and>
          faults w (length (requests w) + i) = None) \<longleftrightarrow>
       (key_of r = Some (ArticleID a) \<and> faults w (length (requests w)) = None) \<or>
       (\<exists>i<length as. key_of r = Some (ArticleID (as ! i)) \<and>
          faults w (Suc (length (requests w) + i)) = None)"
      by (simp add: Ex_less_Suc2)
    moreover have "key_of r = Some (ArticleID a) \<Longrightarrow> ArticleID a \<noteq> []"
      using key_of_nonempty [of r] by auto
    ultimately show ?thesis
      unfolding rq by auto
  qed
  have "rows (delete_loop db (a # as) w) =
      [r \<leftarrow> rows ?w. \<not> (\<exists>i<length as. key_of r = Some (ArticleID (as ! i)) \<and>
                              faults w (length (requests ?w) + i) = None)]"
    using ih f by simp
  also have "\<dots> = [r \<leftarrow> rows w. \<not> (\<exists>i<length (a # as).
      key_of r = Some (ArticleID ((a # as) ! i)) \<and> faults w (length (requests w) + i) = None)]"
    unfolding rw step by (auto intro: filter_cong)
  finally have rows: "rows (delete_loop db (a # as) w) =
      [r \<leftarrow> rows w. \<not> (\<exists>i<length (a # as).
      key_of r = Some (ArticleID ((a # as) ! i)) \<and> faults w (length (requests w) + i) = None)]" .
  have "requests (delete_loop db (a # as) w) =
      requests w @ map (\<lambda>a. DeleteItemReq (tablename db) [(''article_id'', S (ArticleID a))]) (a # as)"
    using ih rq by simp
  moreover have "faults (delete_loop db (a # as) w) = faults w"
    using ih f by simp
  moreover have "table_name (delete_loop db (a # as) w) = table_name w"
    using ih tn by simp
  ultimately show ?case
    using rows by blast
qed

text \<open>
  Claim C6. When the listing fails, \<^verbatim>\<open>DeleteArticleAll\<close> returns the listing's
  error and sends nothing more. When the listing succeeds, it reports success whatever
  the delete requests answer; it sends one delete request per listed article, in the
  order of the listing; and the table keeps exactly the items that no successful
  delete request named, so a failed delete leaves its item in place. The delete for
  the \<open>i\<close>-th listed article is request number \<open>length (requests w1) + i\<close>,
  where \<open>w1\<close> is the world after the listing.
\<close>

theorem DeleteArticleAll_ignores_delete_failures:
  "(\<forall>r e w1. GetArticles db w = ((r, Some e), w1) \<longrightarrow>
      DeleteArticleAll db w = (Returned (Some e), w1)) \<and>
   (\<forall>as w1. GetArticles db w = ((Some as, None), w1) \<longrightarrow>
      fst (DeleteArticleAll db w) = Returned None \<and>
      requests (snd (DeleteArticleAll db w)) =
        requests w1 @
        map (\<lambda>a. DeleteItemReq (tablename db) [(''article_id'', S (ArticleID a))]) as \<and>
      rows (snd (DeleteArticleAll db w)) =
        [r \<leftarrow> rows w. \<not> (\<exists>i<length as. key_of r = Some (ArticleID (as ! i)) \<and>
                              faults w (length (requests w1) + i) = None)])"
proof (intro conjI allI impI)
  fix r e w1
  assume "GetArticles db w = ((r, Some e), w1)"
  then show "DeleteArticleAll db w = (Returned (Some e), w1)"
    by (simp add: DeleteArticleAll_def split: option.splits)
next
  fix as w1
  assume g: "GetArticles db w = ((Some as, None), w1)"
  from GetArticles_success [OF g]
  have tn: "tablename db = table_name w1" and rw: "rows w1 = rows w"
    and f: "faults w1 = faults w"
    by simp_all
  have d: "DeleteArticleAll db w = (Returned None, delete_loop db as w1)"
    using g by (simp add: DeleteArticleAll_def)
  show "fst (DeleteArticleAll db w) = Returned None"
    using d by simp
  show "requests (snd (DeleteArticleAll db w)) =
        requests w1 @
        map (\<lambda>a. DeleteItemReq (tablename db) [(''article_id'', S (ArticleID a))]) as"
    using d delete_loop_effect [OF tn, of as] by simp
  show "rows (snd (DeleteArticleAll db w)) =
        [r \<leftarrow> rows w. \<not> (\<exists>i<length as. key_of r = Some (ArticleID (as ! i)) \<and>
                              faults w (length (requests w1) + i) = None)]"
    using d delete_loop_effect [OF tn, of as] rw f by simp
qed


theorem DeleteArticleAll_ignores_delete_failures_witness:
  "GetArticles repo flaky_store =
     ((Some [article1, article2], None), snd (GetArticles repo flaky_store)) \<and>
   fst (DeleteArticleAll repo flaky_store) = Returned None \<and>
   requests (snd (DeleteArticleAll repo flaky_store)) =
     [ScanReq ''articles'' (Some scan_filter) (Some scan_projection),
      DeleteItemReq ''articles'' [(''article_id'', S ''article1'')],
      DeleteItemReq ''articles'' [(''article_id'', S ''article2'')]] \<and>
   faults flaky_store 2 = Some (RequestFailure ''RequestError: send request failed'') \<and>
   rows (snd (DeleteArticleAll repo flaky_store)) = [encoded article2] \<and>
   GetArticles repo failing_store =
     ((None, Some (RequestFailure ''RequestError: send request failed'')),
      snd (GetArticles repo failing_store)) \<and>
   DeleteArticleAll repo failing_store =
     (Returned (Some (RequestFailure ''RequestError: send request failed'')),
      snd (GetArticles repo failing_store))"
proof -
  let ?w1 = "flaky_store\<lparr>requests := requests flaky_store @
         [ScanReq (tablename repo) (Some scan_filter) (Some scan_projection)]\<rparr>"
  have "GetArticles repo flaky_store =
      ((Some (take (page_limit flaky_store) [article1, article2]), None), ?w1)"
    by (rule GetArticles_encoded_rows)
      (simp_all add: flaky_store_def full_store_def empty_store_def repo_def next_fault_def)
  then have g: "GetArticles repo flaky_store = ((Some [article1, article2], None), ?w1)"
    by (simp add: flaky_store_def full_store_def empty_store_def)
  have k: "key_of (encoded article1) = Some ''article1''"
    "key_of (encoded article2) = Some ''article2''"
    by (simp_all add: key_of_def table_key_def encoded_def encode_string_def article1_def
        article2_def)
  have f: "faults flaky_store (Suc 0) = None"
    "faults flaky_store 2 = Some (RequestFailure ''RequestError: send request failed'')"
    by (simp_all add: flaky_store_def)
  have r: "rows flaky_store = [encoded article1, encoded article2]"
    "requests flaky_store = []" "tablename repo = ''articles''"
    by (simp_all add: flaky_store_def full_store_def empty_store_def repo_def)
  have i: "ArticleID article1 = ''article1''" "ArticleID article2 = ''article2''"
    by (simp_all add: article1_def article2_def)
  have e: "GetArticles repo failing_store =
     ((None, Some (RequestFailure ''RequestError: send request failed'')),
      snd (GetArticles repo failing_store))"
    by (simp add: GetArticles_def Build_scan Scan_def send_def next_fault_def
        failing_store_def full_store_def empty_store_def)
  let ?gone = "\<lambda>r. \<exists>i<length [article1, article2].
      key_of r = Some (ArticleID ([article1, article2] ! i)) \<and>
      faults flaky_store (length (requests ?w1) + i) = None"
  have P1: "?gone (encoded article1)"
    by (rule exI [of _ 0]) (simp add: k i f r)
  have f2: "faults flaky_store (Suc (Suc 0)) \<noteq> None"
    by (simp add: flaky_store_def)
  have P2: "\<not> ?gone (encoded article2)"
    using f2 by (auto simp: k i f r less_Suc_eq)
  have left: "[r \<leftarrow> rows flaky_store. \<not> ?gone r] = [encoded article2]"
    unfolding r(1) using P1 P2 by (simp only: filter.simps not_not if_True if_False simp_thms)
  have sent: "requests ?w1 @
      map (\<lambda>a. DeleteItemReq (tablename repo) [(''article_id'', S (ArticleID a))])
        [article1, article2] =
     [ScanReq ''articles'' (Some scan_filter) (Some scan_projection),
      DeleteItemReq ''articles'' [(''article_id'', S ''article1'')],
      DeleteItemReq ''articles'' [(''article_id'', S ''article2'')]]"
    by (simp add: r i)
  from DeleteArticleAll_ignores_delete_failures [of repo flaky_store, THEN conjunct2,
      rule_format, OF g]
  have "fst (DeleteArticleAll repo flaky_store) = Returned None"
    and "requests (snd (DeleteArticleAll repo flaky_store)) =
     [ScanReq ''articles'' (Some scan_filter) (Some scan_projection),
      DeleteItemReq ''articles'' [(''article_id'', S ''article1'')],
      DeleteItemReq ''articles'' [(''article_id'', S ''article2'')]]"
    and "rows (snd (DeleteArticleAll repo flaky_store)) = [encoded article2]"
    unfolding left sent by blast+
  moreover from DeleteArticleAll_ignores_delete_failures [of repo failing_store,
      THEN conjunct1, rule_format, OF e]
  have "DeleteArticleAll repo failing_store =
     (Returned (Some (RequestFailure ''RequestError: send request failed'')),
      snd (GetArticles repo failing_store))" .
  moreover have "GetArticles repo flaky_store =
     ((Some [article1, article2], None), snd (GetArticles repo flaky_store))"
    using g by simp
  ultimately show ?thesis
    using e f(2) by blast
qed

subsection \<open>Articles by tag\<close>

lemma GetArticlesByTag_never_returns_error:
  "fst (GetArticlesByTag db tag w) \<noteq> Returned (r, Some err)"
  by (auto simp: GetArticlesByTag_def split: prod.splits option.splits sum.splits)

text \<open>
  Claim C2. On a failed query and on an item that does not decode,
  \<^verbatim>\<open>GetArticlesByTag\<close> ends the process through \<^verbatim>\<open>log.Fatalf\<close>; the caller
  receives no error. \<^verbatim>\<open>GetArticles\<close> returns the error on the same two stores.
\<close>

theorem GetArticlesByTag_failure_exits:
  "fst (GetArticlesByTag repo ''go'' failing_store) =
     Fatal (''Query error: '' @ Error (RequestFailure ''RequestError: send request failed'')) \<and>
   fst (GetArticles repo failing_store) =
     (None, Some (RequestFailure ''RequestError: send request failed'')) \<and>
   fst (GetArticlesByTag repo ''go'' tagged_store) =
     Fatal (''Error unmarshaling item: '' @ Error UnmarshalTypeError) \<and>
   fst (GetArticles repo tagged_store) = (None, Some UnmarshalTypeError)"
proof (intro conjI)
  show "fst (GetArticlesByTag repo ''go'' failing_store) =
     Fatal (''Query error: '' @ Error (RequestFailure ''RequestError: send request failed''))"
    by (simp add: GetArticlesByTag_def Query_def send_def next_fault_def
        failing_store_def full_store_def empty_store_def)
  show "fst (GetArticles repo failing_store) =
     (None, Some (RequestFailure ''RequestError: send request failed''))"
    by (simp add: GetArticles_def Build_scan Scan_def send_def next_fault_def
        failing_store_def full_store_def empty_store_def)
  have u: "UnmarshalMap [(''article_id'', S ''bad''), (''Tag'', S ''go''),
      (''Tags'', L [S ''go'']), (''title'', BOOL True)] = Inl UnmarshalTypeError"
    by (simp add: UnmarshalMap_def and_then_def)
  have q: "fst (fst (Query (tablename repo) ''TagsIndex'' (Equal ''Tag'' (S ''go''))
             (Some (Contains ''Tags'' (S ''go''))) tagged_store)) =
      \<lparr>Items = [[(''article_id'', S ''bad''), (''Tag'', S ''go''),
          (''Tags'', L [S ''go'']), (''title'', BOOL True)]], LastEvaluatedKey = None\<rparr>"
    "snd (fst (Query (tablename repo) ''TagsIndex'' (Equal ''Tag'' (S ''go''))
             (Some (Contains ''Tags'' (S ''go''))) tagged_store)) = None"
    by (simp_all add: Query_def send_def next_fault_def tagged_store_def empty_store_def
        repo_def page_def select_def project_def indexed_def)
  obtain out err w' where Q: "Query (tablename repo) ''TagsIndex'' (Equal ''Tag'' (S ''go''))
             (Some (Contains ''Tags'' (S ''go''))) tagged_store = ((out, err), w')"
    by (metis prod.collapse)
  show "fst (GetArticlesByTag repo ''go'' tagged_store) =
     Fatal (''Error unmarshaling item: '' @ Error UnmarshalTypeError)"
    using q u unfolding Q by (simp add: GetArticlesByTag_def Q)
  have s: "fst (fst (Scan (tablename repo) (Some scan_filter) (Some scan_projection)
        tagged_store)) =
      \<lparr>Items = [[(''article_id'', S ''bad''), (''title'', BOOL True)]],
        LastEvaluatedKey = None\<rparr>"
    "snd (fst (Scan (tablename repo) (Some scan_filter) (Some scan_projection)
        tagged_store)) = None"
    by (simp_all add: Scan_def send_def next_fault_def tagged_store_def empty_store_def
        repo_def page_def select_def project_def scan_filter_def scan_projection_def)
  have u': "UnmarshalMap [(''article_id'', S ''bad''), (''title'', BOOL True)] =
      Inl UnmarshalTypeError"
    by (simp add: UnmarshalMap_def and_then_def)
  obtain out' err' w'' where S: "Scan (tablename repo) (Some scan_filter)
      (Some scan_projection) tagged_store = ((out', err'), w'')"
    by (metis prod.collapse)
  show "fst (GetArticles repo tagged_store) = (None, Some UnmarshalTypeError)"
    using s u' unfolding S by (simp add: GetArticles_def Build_scan S)
qed

end
